theory Spec2Isabelle
  imports Main
begin

section \<open>JavaScript values\<close>

text \<open>
  The identifiers, quantities and status codes that flow through the service are plain
  JavaScript values, and the service tests several of them for truthiness
  (\<^verbatim>\<open>!platillo.cantidad\<close>, \<^verbatim>\<open>platilloId ? .. : ..\<close>, \<^verbatim>\<open>error.statusCode || 500\<close>).
  Numbers are modelled by the integers together with \<open>NaN\<close>; every other number is
  truthy exactly like a non-zero integer.
\<close>

datatype jsval = Undefined | Null | Bool bool | Num int | NaN | Str string

fun truthy :: "jsval \<Rightarrow> bool" where
  "truthy Undefined = False"
| "truthy Null = False"
| "truthy (Bool b) = b"
| "truthy (Num n) = (n \<noteq> 0)"
| "truthy NaN = False"
| "truthy (Str s) = (s \<noteq> [])"

text \<open>\<^verbatim>\<open>a || b\<close> on values.\<close>

definition js_or :: "jsval \<Rightarrow> jsval \<Rightarrow> jsval" where
  "js_or a b = (if truthy a then a else b)"

text \<open>The decimal digits of a natural number, as a template literal prints a number.\<close>

definition digit :: "nat \<Rightarrow> char" where
  "digit n = ''0123456789'' ! (n mod 10)"

function decimal :: "nat \<Rightarrow> string" where
  "decimal n = (if n < 10 then [digit n] else decimal (n div 10) @ [digit n])"
  by pat_completeness auto
termination
  by (relation "measure id") auto

declare decimal.simps [simp del]

text \<open>
  The string a template literal substitutes for a value. An integer below \<open>2^53\<close> in
  magnitude prints as its decimal digits. From there on a number is a double that prints
  with rounded digits or an exponent; that conversion belongs to the engine and is the
  parameter \<open>numberToString\<close>.
\<close>

fun toStr :: "(int \<Rightarrow> string) \<Rightarrow> jsval \<Rightarrow> string" where
  "toStr numberToString Undefined = ''undefined''"
| "toStr numberToString Null = ''null''"
| "toStr numberToString (Bool b) = (if b then ''true'' else ''false'')"
| "toStr numberToString (Num n) =
     (if \<bar>n\<bar> < 9007199254740992
      then (if n < 0 then ''-'' @ decimal (nat (- n)) else decimal (nat n))
      else numberToString n)"
| "toStr numberToString NaN = ''NaN''"
| "toStr numberToString (Str s) = s"

text \<open>\<^verbatim>\<open>Array.prototype.join\<close> on an array of strings.\<close>

fun join :: "string list \<Rightarrow> string \<Rightarrow> string" where
  "join [] sep = []"
| "join [x] sep = x"
| "join (x # y # ys) sep = x @ sep @ join (y # ys) sep"

section \<open>Errors\<close>

text \<open>
  An error object thrown by a collaborator: its \<^verbatim>\<open>message\<close> and its
  \<^verbatim>\<open>statusCode\<close> property (\<open>Undefined\<close> when the object has none).
\<close>

record thrown =
  message :: string
  statusCode :: jsval

text \<open>
  What an operation of the service can throw: \<^verbatim>\<open>new AppError(message)\<close> (no status
  code given, \<open>None\<close>), \<^verbatim>\<open>new AppError(message, code)\<close>,
  \<^verbatim>\<open>new NotFoundError(message)\<close>, the \<^verbatim>\<open>TypeError\<close> of the engine for reading a
  property of \<^verbatim>\<open>null\<close> or \<^verbatim>\<open>undefined\<close>, or an error of a collaborator that the
  operation does not catch.
\<close>

datatype error =
    AppError string "jsval option"
  | NotFoundError string
  | TypeError
  | Uncaught thrown

text \<open>
  The status code an \<open>AppError\<close> ends up with. The class \<^verbatim>\<open>AppError\<close> is not among the
  sources, so the code it falls back to when the constructor gets none is the parameter
  \<open>dflt\<close>.
\<close>

fun appErrorStatus :: "jsval \<Rightarrow> error \<Rightarrow> jsval option" where
  "appErrorStatus dflt (AppError m None) = Some dflt"
| "appErrorStatus dflt (AppError m (Some c)) = Some c"
| "appErrorStatus dflt (NotFoundError m) = None"
| "appErrorStatus dflt TypeError = None"
| "appErrorStatus dflt (Uncaught e) = None"

section \<open>The order repository (collaborator)\<close>

text \<open>
  An entry of the array \<^verbatim>\<open>platillos\<close> is an object, of which the service reads the
  properties \<^verbatim>\<open>platilloId\<close> and \<^verbatim>\<open>cantidad\<close> (\<open>Undefined\<close> for a property the
  object does not have, as for every property of a number, string or boolean entry), or
  it is \<^verbatim>\<open>null\<close> or \<^verbatim>\<open>undefined\<close>, which is \<open>None\<close>.
\<close>

record platillo =
  platilloId :: jsval
  cantidad :: jsval

type_synonym entry = "platillo option"

record update_result =
  affectedRows :: jsval

text \<open>
  \<^verbatim>\<open>OrderRepository\<close> is a collaborator: each of its methods is a function of the
  arguments and of the state \<open>'s\<close> of the data store, returning either what it throws
  or its result, and the new state. \<open>'row\<close> is a database row, \<open>'od\<close> the order data
  handed to \<^verbatim>\<open>create\<close>, \<open>'obj\<close> whatever object the repository answers with.
\<close>

record ('s, 'row, 'od, 'obj) OrderRepository =
  repo_findAll :: "jsval \<Rightarrow> 's \<Rightarrow> (thrown + 'row list option) \<times> 's"
  repo_findOrderById :: "jsval \<Rightarrow> 's \<Rightarrow> (thrown + 'obj) \<times> 's"
  repo_findPlatilloById :: "jsval \<Rightarrow> jsval \<Rightarrow> 's \<Rightarrow> (thrown + 'row list) \<times> 's"
  repo_updatePlatilloStatus :: "jsval \<Rightarrow> jsval \<Rightarrow> string \<Rightarrow> 's \<Rightarrow> (thrown + update_result) \<times> 's"
  repo_updateStatusById :: "jsval \<Rightarrow> string \<Rightarrow> 's \<Rightarrow> (thrown + 'obj) \<times> 's"
  repo_create :: "'od \<Rightarrow> entry list \<Rightarrow> 's \<Rightarrow> (thrown + 'obj) \<times> 's"
  repo_cancelOrder :: "jsval \<Rightarrow> jsval \<Rightarrow> 's \<Rightarrow> (thrown + 'obj) \<times> 's"

text \<open>The calls the service makes to the repository, with their arguments.\<close>

datatype 'od call =
    FindAll jsval
  | FindOrderById jsval
  | FindPlatilloById jsval jsval
  | UpdatePlatilloStatus jsval jsval string
  | UpdateStatusById jsval string
  | Create 'od "entry list"
  | CancelOrder jsval jsval

text \<open>
  The world an operation runs in: the state of the data store and the calls made to the
  repository so far, oldest first.
\<close>

record ('s, 'od) world =
  store :: 's
  calls :: "'od call list"

text \<open>One awaited call of a repository method: it is recorded and the store moves on.\<close>

definition invoke ::
  "'od call \<Rightarrow> ('s \<Rightarrow> (thrown + 'a) \<times> 's) \<Rightarrow> ('s, 'od) world \<Rightarrow> (thrown + 'a) \<times> ('s, 'od) world" where
  "invoke c f w =
     (case f (store w) of (r, s') \<Rightarrow> (r, \<lparr>store = s', calls = calls w @ [c]\<rparr>))"

section \<open>OrderService\<close>

text \<open>
  The operations take what the module closes over as leading parameters: the repository,
  \<^verbatim>\<open>Order.fromDB\<close> (\<open>fromDB\<close>) and the values of the enum \<^verbatim>\<open>state.Pedido\<close>
  (\<open>Pedido\<close>, in the order \<^verbatim>\<open>Object.values\<close> lists them), none of which are among the
  sources, and \<open>numberToString\<close> where a message prints a number. An operation maps the world to its outcome, \<open>Inl\<close> what it throws or \<open>Inr\<close>
  what it returns, and the world it leaves.
\<close>

definition getAll ::
  "('row \<Rightarrow> 'order) \<Rightarrow> ('s, 'row, 'od, 'obj) OrderRepository \<Rightarrow> jsval
     \<Rightarrow> ('s, 'od) world \<Rightarrow> (error + 'order list) \<times> ('s, 'od) world" where
  "getAll fromDB repo restaurantId w =
     (case invoke (FindAll restaurantId) (repo_findAll repo restaurantId) w of
        (Inl e, w') \<Rightarrow> (Inl (Uncaught e), w')
      | (Inr rows, w') \<Rightarrow>
          (case rows of
             None \<Rightarrow> (Inl (NotFoundError ''No se encontraron pedidos.''), w')
           | Some rs \<Rightarrow>
               if length rs = 0 then (Inl (NotFoundError ''No se encontraron pedidos.''), w')
               else (Inr (map fromDB rs), w')))"

definition getOrder ::
  "(int \<Rightarrow> string) \<Rightarrow> ('s, 'row, 'od, 'obj) OrderRepository \<Rightarrow> jsval
     \<Rightarrow> ('s, 'od) world \<Rightarrow> (error + 'obj) \<times> ('s, 'od) world" where
  "getOrder numberToString repo id' w =
     (case invoke (FindOrderById id') (repo_findOrderById repo id') w of
        (Inl e, w') \<Rightarrow>
          (Inl (AppError (''Error al obtener el pedido con ID '' @ toStr numberToString id' @ '': '' @ message e) None), w')
      | (Inr orderDetails, w') \<Rightarrow> (Inr orderDetails, w'))"

text \<open>
  The message of both status validations; \<open>a\<close> with an acute accent is the two bytes
  C3 A1 of its UTF-8 encoding.
\<close>

definition estadoInvalido :: "string list \<Rightarrow> string" where
  "estadoInvalido validStates =
     ''Estado inv'' @ [CHR 0xC3, CHR 0xA1] @ ''lido. Estados permitidos: ''
       @ join validStates '', '' @ ''.''"

datatype confirmation = Message string

definition updatePlatilloStatus ::
  "(int \<Rightarrow> string) \<Rightarrow> string list \<Rightarrow> ('s, 'row, 'od, 'obj) OrderRepository
     \<Rightarrow> jsval \<Rightarrow> jsval \<Rightarrow> string
     \<Rightarrow> ('s, 'od) world \<Rightarrow> (error + confirmation) \<times> ('s, 'od) world" where
  "updatePlatilloStatus numberToString Pedido repo pedidoId platilloId' estado w =
     (let validStates = Pedido in
      if estado \<notin> set validStates then
        (Inl (AppError (estadoInvalido validStates) (Some (Num 400))), w)
      else
        (case invoke (FindPlatilloById pedidoId platilloId')
                (repo_findPlatilloById repo pedidoId platilloId') w of
           (Inl e, w1) \<Rightarrow> (Inl (Uncaught e), w1)
         | (Inr platillo, w1) \<Rightarrow>
             if length platillo = 0 then
               (Inl (NotFoundError (''Platillo con ID '' @ toStr numberToString platilloId'
                       @ '' no encontrado en el pedido '' @ toStr numberToString pedidoId
                       @ ''.'')), w1)
             else
               (case invoke (UpdatePlatilloStatus pedidoId platilloId' estado)
                       (repo_updatePlatilloStatus repo pedidoId platilloId' estado) w1 of
                  (Inl e, w2) \<Rightarrow> (Inl (Uncaught e), w2)
                | (Inr updateResult, w2) \<Rightarrow>
                    if affectedRows updateResult = Num 0 then
                      (Inl (AppError ''No se pudo actualizar el estado del platillo.''
                              (Some (Num 500))), w2)
                    else (Inr (Message ''Estado actualizado correctamente.''), w2))))"

definition updateOrderStatus ::
  "string list \<Rightarrow> ('s, 'row, 'od, 'obj) OrderRepository \<Rightarrow> jsval \<Rightarrow> string
     \<Rightarrow> ('s, 'od) world \<Rightarrow> (error + 'obj) \<times> ('s, 'od) world" where
  "updateOrderStatus Pedido repo id' estado w =
     (let validStates = Pedido in
      if estado \<notin> set validStates then
        (Inl (AppError (estadoInvalido validStates) None), w)
      else
        (case invoke (UpdateStatusById id' estado) (repo_updateStatusById repo id' estado) w of
           (Inl e, w') \<Rightarrow> (Inl (Uncaught e), w')
         | (Inr updatedOrder, w') \<Rightarrow> (Inr updatedOrder, w')))"

text \<open>
  The \<^verbatim>\<open>forEach\<close> of \<^verbatim>\<open>createOrder\<close>, in the order of the array. On an entry that
  is \<^verbatim>\<open>null\<close> or \<^verbatim>\<open>undefined\<close> the read \<^verbatim>\<open>platillo.platilloId\<close> throws a
  \<open>TypeError\<close>; on an object that fails the test the callback throws the \<open>AppError\<close>.
  Either ends the loop: the entries after it are not visited.
\<close>

fun checkPlatillos :: "entry list \<Rightarrow> error option" where
  "checkPlatillos [] = None"
| "checkPlatillos (None # ps) = Some TypeError"
| "checkPlatillos (Some p # ps) =
     (if \<not> truthy (platilloId p) \<or> \<not> truthy (cantidad p)
      then Some (AppError ''Cada platillo debe incluir platilloId y cantidad.'' None)
      else checkPlatillos ps)"

text \<open>\<open>platillos\<close> is \<open>None\<close> when the argument is \<^verbatim>\<open>undefined\<close> or \<^verbatim>\<open>null\<close>.\<close>

definition createOrder ::
  "('s, 'row, 'od, 'obj) OrderRepository \<Rightarrow> 'od \<Rightarrow> entry list option
     \<Rightarrow> ('s, 'od) world \<Rightarrow> (error + 'obj) \<times> ('s, 'od) world" where
  "createOrder repo orderData platillos w =
     (case platillos of
        None \<Rightarrow> (Inl (AppError ''El pedido debe incluir al menos un platillo.'' None), w)
      | Some ps \<Rightarrow>
          if length ps = 0 then
            (Inl (AppError ''El pedido debe incluir al menos un platillo.'' None), w)
          else
            (case checkPlatillos ps of
               Some err \<Rightarrow> (Inl err, w)
             | None \<Rightarrow>
                 (case invoke (Create orderData ps) (repo_create repo orderData ps) w of
                    (Inl e, w') \<Rightarrow> (Inl (Uncaught e), w')
                  | (Inr created, w') \<Rightarrow> (Inr created, w'))))"

text \<open>
  The second parameter is declared \<^verbatim>\<open>platilloId = null\<close>: an argument that is left
  out, or is \<^verbatim>\<open>undefined\<close>, is replaced by \<^verbatim>\<open>null\<close> before the body runs.
\<close>

definition cancelOrder ::
  "('s, 'row, 'od, 'obj) OrderRepository \<Rightarrow> jsval \<Rightarrow> jsval
     \<Rightarrow> ('s, 'od) world \<Rightarrow> (error + 'obj) \<times> ('s, 'od) world" where
  "cancelOrder repo pedidoId arg w =
     (let platilloId' = (if arg = Undefined then Null else arg) in
      case invoke (CancelOrder pedidoId platilloId')
             (repo_cancelOrder repo pedidoId platilloId') w of
        (Inr r, w') \<Rightarrow> (Inr r, w')
      | (Inl e, w') \<Rightarrow>
          (Inl (AppError
                 (''Error al cancelar el '' @ (if truthy platilloId' then ''platillo'' else ''pedido'')
                    @ '': '' @ message e)
                 (Some (js_or (statusCode e) (Num 500)))), w'))"

section \<open>Session tokens and cookies\<close>

text \<open>\<^verbatim>\<open>config.auth\<close>, as far as \<^verbatim>\<open>utils/jwt.js\<close> reads it.\<close>

record ('k, 'e) auth_config =
  jwtSecret :: 'k
  jwtExpiration :: 'e

text \<open>A payload object: its own properties, in order.\<close>

type_synonym payload = "(string \<times> jsval) list"

text \<open>
  The two functions of the package \<^verbatim>\<open>jsonwebtoken\<close> that the module calls. The
  package is a dependency, not part of the program, and stays a parameter:
  \<open>sign payload secret expiresIn\<close> and \<open>verify token secret\<close>, each either throwing
  or returning.
\<close>

record ('k, 'e, 'tok) jsonwebtoken =
  sign :: "payload \<Rightarrow> 'k \<Rightarrow> 'e \<Rightarrow> thrown + 'tok"
  verify :: "'tok \<Rightarrow> 'k \<Rightarrow> thrown + payload"

text \<open>
  \<^verbatim>\<open>{ ...data }\<close> is a fresh object with the own properties of \<open>data\<close>, and the empty
  object when \<open>data\<close> is \<^verbatim>\<open>undefined\<close> or \<^verbatim>\<open>null\<close>, which is \<open>None\<close>.
\<close>

definition spread :: "payload option \<Rightarrow> payload" where
  "spread data = (case data of None \<Rightarrow> [] | Some d \<Rightarrow> d)"

definition createJWT ::
  "('k, 'e, 'tok) jsonwebtoken \<Rightarrow> ('k, 'e) auth_config \<Rightarrow> payload option \<Rightarrow> thrown + 'tok" where
  "createJWT jwt config data = sign jwt (spread data) (jwtSecret config) (jwtExpiration config)"

record ('v, 'e) cookie =
  cookie_name :: string
  cookie_value :: 'v
  httpOnly :: bool
  secure :: bool
  sameSite :: string
  maxAge :: 'e

text \<open>
  \<open>NODE_ENV\<close> is \<^verbatim>\<open>process.env.NODE_ENV\<close>, \<open>None\<close> when the variable is not set.
  The response \<open>res\<close> is the list of the cookies set on it so far.
\<close>

definition createCookie ::
  "('k, 'e) auth_config \<Rightarrow> string option \<Rightarrow> ('v, 'e) cookie list \<Rightarrow> string \<Rightarrow> 'v
     \<Rightarrow> ('v, 'e) cookie list" where
  "createCookie config NODE_ENV res name value =
     (let isProduction =
            ((case NODE_ENV of None \<Rightarrow> True | Some v \<Rightarrow> v = []) \<or> NODE_ENV \<noteq> Some ''development'')
      in res @ [\<lparr>cookie_name = name, cookie_value = value, httpOnly = True,
                 secure = isProduction,
                 sameSite = (if isProduction then ''None'' else ''Lax''),
                 maxAge = jwtExpiration config\<rparr>])"

definition createJWTCookie ::
  "('k, 'e, 'tok) jsonwebtoken \<Rightarrow> ('k, 'e) auth_config \<Rightarrow> string option
     \<Rightarrow> ('tok, 'e) cookie list \<Rightarrow> payload option
     \<Rightarrow> (thrown + unit) \<times> ('tok, 'e) cookie list" where
  "createJWTCookie jwt config NODE_ENV res data =
     (case createJWT jwt config data of
        Inl e \<Rightarrow> (Inl e, res)
      | Inr token \<Rightarrow> (Inr (), createCookie config NODE_ENV res ''token'' token))"

definition verifyJWT ::
  "('k, 'e, 'tok) jsonwebtoken \<Rightarrow> ('k, 'e) auth_config \<Rightarrow> 'tok \<Rightarrow> thrown + payload" where
  "verifyJWT jwt config token = verify jwt token (jwtSecret config)"

section \<open>Test doubles\<close>

text \<open>
  A repository for running the operations on concrete inputs. Its store counts the calls
  it has served; lookups answer \<open>rows\<close>, the item update reports \<open>affected\<close> rows, and
  \<^verbatim>\<open>cancelOrder\<close> throws \<open>failure\<close> when there is one.
\<close>

definition stubRepository ::
  "nat list \<Rightarrow> jsval \<Rightarrow> thrown option \<Rightarrow> (nat, nat, string, string) OrderRepository" where
  "stubRepository rows affected failure =
     \<lparr>repo_findAll = (\<lambda>restaurantId s. (Inr (Some rows), Suc s)),
      repo_findOrderById = (\<lambda>i s. (Inr ''detalle'', Suc s)),
      repo_findPlatilloById = (\<lambda>p q s. (Inr rows, Suc s)),
      repo_updatePlatilloStatus = (\<lambda>p q e s. (Inr \<lparr>affectedRows = affected\<rparr>, Suc s)),
      repo_updateStatusById = (\<lambda>i e s. (Inr ''actualizado'', Suc s)),
      repo_create = (\<lambda>d ps s. (Inr ''creado'', Suc s)),
      repo_cancelOrder =
        (\<lambda>p q s. (case failure of None \<Rightarrow> Inr ''cancelado'' | Some e \<Rightarrow> Inl e, Suc s))\<rparr>"

definition world0 :: "(nat, string) world" where
  "world0 = \<lparr>store = 0, calls = []\<rparr>"

text \<open>No number of the runs below reaches \<open>2^53\<close>; the conversion for those is idle.\<close>

definition noBigNumbers :: "int \<Rightarrow> string" where
  "noBigNumbers n = []"

text \<open>A signing scheme that only pairs the payload with the secret.\<close>

definition stubJWT :: "(nat, nat, payload \<times> nat) jsonwebtoken" where
  "stubJWT =
     \<lparr>sign = (\<lambda>d k e. Inr (d, k)),
      verify = (\<lambda>t k. if snd t = k then Inr (fst t)
                       else Inl \<lparr>message = ''invalid signature'', statusCode = Undefined\<rparr>)\<rparr>"

section \<open>Creating an order\<close>

text \<open>
  With an absent or empty list \<^verbatim>\<open>createOrder\<close> throws the \<open>AppError\<close> of its first
  check, whatever the order data, and leaves the world as it was: no call to the
  repository is recorded, so \<^verbatim>\<open>create\<close> is not invoked.
\<close>

lemma createOrder_empty_no_call:
  "platillos = None \<or> platillos = Some [] \<Longrightarrow>
   createOrder repo orderData platillos w =
     (Inl (AppError ''El pedido debe incluir al menos un platillo.'' None), w)"
  by (auto simp: createOrder_def)

text \<open>
  C3. On the empty list, and on a list left out, \<^verbatim>\<open>createOrder\<close> throws and makes no
  call, so \<^verbatim>\<open>create\<close> is not invoked. The \<open>AppError\<close> it throws is built without a
  status code, so it carries whatever \<open>AppError\<close> falls back to; with a fallback of 500
  that is 500, not the 400 of an invalid input.
\<close>

theorem createOrder_empty_error_has_no_400:
  "createOrder (stubRepository [] (Num 1) None) ''mesa 4'' (Some []) world0 =
     (Inl (AppError ''El pedido debe incluir al menos un platillo.'' None), world0)
   \<and> createOrder (stubRepository [] (Num 1) None) ''mesa 4'' None world0 =
     (Inl (AppError ''El pedido debe incluir al menos un platillo.'' None), world0)
   \<and> calls world0 = []
   \<and> appErrorStatus (Num 500) (AppError ''El pedido debe incluir al menos un platillo.'' None)
       = Some (Num 500)
   \<and> appErrorStatus (Num 500) (AppError ''El pedido debe incluir al menos un platillo.'' None)
       \<noteq> Some (Num 400)"
  by (simp add: createOrder_def world0_def)

text \<open>Entries that pass the test are stepped over.\<close>

lemma checkPlatillos_prefix:
  "\<forall>x \<in> set xs. \<exists>p. x = Some p \<and> truthy (platilloId p) \<and> truthy (cantidad p) \<Longrightarrow>
   checkPlatillos (xs @ ys) = checkPlatillos ys"
  by (induction xs) auto

text \<open>In an array of objects, one object that fails the test is enough.\<close>

lemma checkPlatillos_objects:
  "\<forall>x \<in> set ps. x \<noteq> None \<Longrightarrow>
   \<exists>p. Some p \<in> set ps \<and> (\<not> truthy (platilloId p) \<or> \<not> truthy (cantidad p)) \<Longrightarrow>
   checkPlatillos ps = Some (AppError ''Cada platillo debe incluir platilloId y cantidad.'' None)"
proof (induction ps)
  case Nil
  then show ?case by simp
next
  case (Cons a ps)
  from Cons.prems(1) obtain p where a: "a = Some p" by auto
  show ?case
  proof (cases "\<not> truthy (platilloId p) \<or> \<not> truthy (cantidad p)")
    case True
    with a show ?thesis by simp
  next
    case False
    with a Cons.prems(2)
    have "\<exists>q. Some q \<in> set ps \<and> (\<not> truthy (platilloId q) \<or> \<not> truthy (cantidad q))"
      by auto
    moreover from Cons.prems(1) have "\<forall>x \<in> set ps. x \<noteq> None" by simp
    ultimately have "checkPlatillos ps =
        Some (AppError ''Cada platillo debe incluir platilloId y cantidad.'' None)"
      using Cons.IH by blast
    with a False show ?thesis by simp
  qed
qed

text \<open>
  C2, as the code has it. The test \<^verbatim>\<open>!platillo.platilloId || !platillo.cantidad\<close> is a
  test of truthiness, made on the entries in the order of the array.

  \<^item> In a non-empty array whose entries are all objects, if some entry has a falsy
    \<^verbatim>\<open>platilloId\<close> or a falsy \<^verbatim>\<open>cantidad\<close> (absent, \<^verbatim>\<open>null\<close>, \<open>0\<close>, \<open>NaN\<close>, the
    empty string, \<^verbatim>\<open>false\<close>), \<^verbatim>\<open>createOrder\<close> throws the \<open>AppError\<close> of the item
    check and leaves the world as it was, so no call to \<^verbatim>\<open>create\<close> is made.
  \<^item> In any array, the first entry that does not pass decides: when the entries before
    it are objects with both fields truthy, an object with a falsy field gives that
    \<open>AppError\<close> and an entry that is \<^verbatim>\<open>null\<close> or \<^verbatim>\<open>undefined\<close> gives a
    \<open>TypeError\<close>, whatever follows in the array, and in both cases no call is made.
  \<^item> When every entry is an object with both fields truthy, \<^verbatim>\<open>create\<close> is called
    with the array.
  \<^item> A quantity of \<open>0\<close> is falsy, and so is a field that is missing; every other
    integer, the negative ones included, is truthy.
\<close>

theorem createOrder_falsy_item_rejected:
  "((\<forall>x \<in> set ps. x \<noteq> None)
      \<and> (\<exists>p. Some p \<in> set ps \<and> (\<not> truthy (platilloId p) \<or> \<not> truthy (cantidad p))) \<longrightarrow>
      createOrder repo orderData (Some ps) w =
        (Inl (AppError ''Cada platillo debe incluir platilloId y cantidad.'' None), w))
   \<and> ((\<forall>x \<in> set xs. \<exists>p. x = Some p \<and> truthy (platilloId p) \<and> truthy (cantidad p)) \<longrightarrow>
        (\<not> truthy (platilloId q) \<or> \<not> truthy (cantidad q) \<longrightarrow>
           createOrder repo orderData (Some (xs @ Some q # ys)) w =
             (Inl (AppError ''Cada platillo debe incluir platilloId y cantidad.'' None), w))
        \<and> createOrder repo orderData (Some (xs @ None # ys)) w = (Inl TypeError, w)
        \<and> (xs \<noteq> [] \<longrightarrow>
             calls (snd (createOrder repo orderData (Some xs) w)) = calls w @ [Create orderData xs]))
   \<and> \<not> truthy (Num 0) \<and> \<not> truthy Undefined \<and> \<not> truthy Null
   \<and> (\<forall>n. n \<noteq> 0 \<longrightarrow> truthy (Num n))"
proof -
  let ?E = "AppError ''Cada platillo debe incluir platilloId y cantidad.'' None"
  have objects: "createOrder repo orderData (Some ps) w = (Inl ?E, w)"
    if h: "\<forall>x \<in> set ps. x \<noteq> None"
          "\<exists>p. Some p \<in> set ps \<and> (\<not> truthy (platilloId p) \<or> \<not> truthy (cantidad p))"
  proof -
    from h have "checkPlatillos ps = Some ?E" by (rule checkPlatillos_objects)
    moreover from h(2) have "ps \<noteq> []" by auto
    ultimately show ?thesis by (simp add: createOrder_def)
  qed
  have offender: "createOrder repo orderData (Some (xs @ Some q # ys)) w = (Inl ?E, w)"
    if h: "\<forall>x \<in> set xs. \<exists>p. x = Some p \<and> truthy (platilloId p) \<and> truthy (cantidad p)"
          "\<not> truthy (platilloId q) \<or> \<not> truthy (cantidad q)"
  proof -
    from h(1) have "checkPlatillos (xs @ Some q # ys) = checkPlatillos (Some q # ys)"
      by (rule checkPlatillos_prefix)
    with h(2) have "checkPlatillos (xs @ Some q # ys) = Some ?E" by auto
    then show ?thesis by (simp add: createOrder_def)
  qed
  have nullish: "createOrder repo orderData (Some (xs @ None # ys)) w = (Inl TypeError, w)"
    if h: "\<forall>x \<in> set xs. \<exists>p. x = Some p \<and> truthy (platilloId p) \<and> truthy (cantidad p)"
  proof -
    from h have "checkPlatillos (xs @ None # ys) = checkPlatillos (None # ys)"
      by (rule checkPlatillos_prefix)
    then have "checkPlatillos (xs @ None # ys) = Some TypeError" by simp
    then show ?thesis by (simp add: createOrder_def)
  qed
  have passes: "calls (snd (createOrder repo orderData (Some xs) w)) = calls w @ [Create orderData xs]"
    if h: "\<forall>x \<in> set xs. \<exists>p. x = Some p \<and> truthy (platilloId p) \<and> truthy (cantidad p)"
          "xs \<noteq> []"
  proof -
    from h(1) have "checkPlatillos (xs @ []) = checkPlatillos []"
      by (rule checkPlatillos_prefix)
    then have "checkPlatillos xs = None" by simp
    with h(2) show ?thesis
      by (simp add: createOrder_def invoke_def split: prod.splits sum.splits)
  qed
  from objects offender nullish passes show ?thesis by simp
qed

theorem createOrder_falsy_item_rejected_witness:
  "createOrder (stubRepository [] (Num 1) None) ''mesa 4''
     (Some [Some \<lparr>platilloId = Num 7, cantidad = Num 2\<rparr>,
            Some \<lparr>platilloId = Num 9, cantidad = Num 0\<rparr>, None]) world0 =
     (Inl (AppError ''Cada platillo debe incluir platilloId y cantidad.'' None), world0)
   \<and> createOrder (stubRepository [] (Num 1) None) ''mesa 4''
     (Some [Some \<lparr>platilloId = Num 7, cantidad = Num 2\<rparr>, None,
            Some \<lparr>platilloId = Num 9, cantidad = Num 0\<rparr>]) world0 =
     (Inl TypeError, world0)
   \<and> createOrder (stubRepository [] (Num 1) None) ''mesa 4''
     (Some [Some \<lparr>platilloId = Num 7, cantidad = Num 2\<rparr>,
            Some \<lparr>platilloId = Undefined, cantidad = Num 3\<rparr>]) world0 =
     (Inl (AppError ''Cada platillo debe incluir platilloId y cantidad.'' None), world0)"
proof -
  let ?ok = "\<lparr>platilloId = Num 7, cantidad = Num 2\<rparr>"
  let ?zero = "\<lparr>platilloId = Num 9, cantidad = Num 0\<rparr>"
  let ?noId = "\<lparr>platilloId = Undefined, cantidad = Num 3\<rparr>"
  let ?repo = "stubRepository [] (Num 1) None"
  have before: "\<forall>x \<in> set [Some ?ok]. \<exists>p. x = Some p \<and> truthy (platilloId p) \<and> truthy (cantidad p)"
    by simp
  have falsy: "\<not> truthy (platilloId ?zero) \<or> \<not> truthy (cantidad ?zero)" by simp
  have "Some ?noId \<in> set [Some ?ok, Some ?noId]
      \<and> (\<not> truthy (platilloId ?noId) \<or> \<not> truthy (cantidad ?noId))"
    by simp
  then have "\<exists>p. Some p \<in> set [Some ?ok, Some ?noId]
             \<and> (\<not> truthy (platilloId p) \<or> \<not> truthy (cantidad p))"
    by (rule exI)
  then have objs: "(\<forall>x \<in> set [Some ?ok, Some ?noId]. x \<noteq> None)
      \<and> (\<exists>p. Some p \<in> set [Some ?ok, Some ?noId]
             \<and> (\<not> truthy (platilloId p) \<or> \<not> truthy (cantidad p)))"
    by simp
  from before falsy
       createOrder_falsy_item_rejected [of "[]" ?repo "''mesa 4''" world0 "[Some ?ok]" ?zero "[None]"]
  have a: "createOrder ?repo ''mesa 4'' (Some [Some ?ok, Some ?zero, None]) world0 =
             (Inl (AppError ''Cada platillo debe incluir platilloId y cantidad.'' None), world0)"
    by simp
  from before
       createOrder_falsy_item_rejected [of "[]" ?repo "''mesa 4''" world0 "[Some ?ok]" ?zero "[Some ?zero]"]
  have b: "createOrder ?repo ''mesa 4'' (Some [Some ?ok, None, Some ?zero]) world0 =
             (Inl TypeError, world0)"
    by simp
  from objs
       createOrder_falsy_item_rejected
         [of "[Some ?ok, Some ?noId]" ?repo "''mesa 4''" world0 "[]" ?zero "[]"]
  have c: "createOrder ?repo ''mesa 4'' (Some [Some ?ok, Some ?noId]) world0 =
             (Inl (AppError ''Cada platillo debe incluir platilloId y cantidad.'' None), world0)"
    by blast
  from a b c show ?thesis by simp
qed

text \<open>
  C2, as it is written, fails: a negative quantity is truthy. The order below has one
  item with quantity \<open>-2\<close>; it passes the item check, \<^verbatim>\<open>create\<close> is called and its
  result returned.
\<close>

theorem createOrder_negative_quantity_accepted:
  "createOrder (stubRepository [] (Num 1) None) ''mesa 4''
     (Some [Some \<lparr>platilloId = Num 7, cantidad = Num (- 2)\<rparr>]) world0 =
     (Inr ''creado'',
      \<lparr>store = 1, calls = [Create ''mesa 4'' [Some \<lparr>platilloId = Num 7, cantidad = Num (- 2)\<rparr>]]\<rparr>)"
  by (simp add: createOrder_def invoke_def stubRepository_def world0_def)

section \<open>Validating a status\<close>

text \<open>
  Both status operations test the new status against the vocabulary before anything
  else; on a status outside it they throw and the world is untouched.
\<close>

lemma updatePlatilloStatus_invalid:
  "estado \<notin> set Pedido \<Longrightarrow>
   updatePlatilloStatus numberToString Pedido repo pedidoId itemId estado w =
     (Inl (AppError (estadoInvalido Pedido) (Some (Num 400))), w)"
  by (simp add: updatePlatilloStatus_def)

lemma updateOrderStatus_invalid:
  "estado \<notin> set Pedido \<Longrightarrow>
   updateOrderStatus Pedido repo orderId estado w =
     (Inl (AppError (estadoInvalido Pedido) None), w)"
  by (simp add: updateOrderStatus_def)

lemma updatePlatilloStatus_success_member:
  "fst (updatePlatilloStatus numberToString Pedido repo pedidoId itemId estado w) = Inr r \<Longrightarrow>
   estado \<in> set Pedido"
  by (rule ccontr) (simp add: updatePlatilloStatus_invalid)

lemma updateOrderStatus_success_member:
  "fst (updateOrderStatus Pedido repo orderId estado w) = Inr r \<Longrightarrow> estado \<in> set Pedido"
  by (rule ccontr) (simp add: updateOrderStatus_invalid)

text \<open>
  C1. With the vocabulary \<open>pendiente\<close>, \<open>listo\<close> and the status \<open>volando\<close>, which is not
  in it, both operations throw an \<open>AppError\<close> with the same message and make no call.
  \<^verbatim>\<open>updatePlatilloStatus\<close> gives its error the status code 400.
  \<^verbatim>\<open>updateOrderStatus\<close> gives its error no status code, so the error carries whatever
  \<open>AppError\<close> falls back to; with a fallback of 500 that is 500, not 400.
\<close>

theorem updateOrderStatus_invalid_status_has_no_400:
  "updatePlatilloStatus noBigNumbers [''pendiente'', ''listo''] (stubRepository [5] (Num 1) None)
       (Num 1) (Num 2) ''volando'' world0 =
     (Inl (AppError (estadoInvalido [''pendiente'', ''listo'']) (Some (Num 400))), world0)
   \<and> updateOrderStatus [''pendiente'', ''listo''] (stubRepository [5] (Num 1) None)
       (Str ''12'') ''volando'' world0 =
     (Inl (AppError (estadoInvalido [''pendiente'', ''listo'']) None), world0)
   \<and> appErrorStatus (Num 500) (AppError (estadoInvalido [''pendiente'', ''listo'']) None)
       = Some (Num 500)
   \<and> appErrorStatus (Num 500) (AppError (estadoInvalido [''pendiente'', ''listo'']) None)
       \<noteq> Some (Num 400)
   \<and> estadoInvalido [''pendiente'', ''listo''] =
       ''Estado inv'' @ [CHR 0xC3, CHR 0xA1] @ ''lido. Estados permitidos: pendiente, listo.''"
  by (simp add: updatePlatilloStatus_def updateOrderStatus_def estadoInvalido_def)

section \<open>Updating the status of an item\<close>

text \<open>
  C4. For a status of the vocabulary, when the lookup of the item under the order
  answers with no rows, \<^verbatim>\<open>updatePlatilloStatus\<close> throws \<open>NotFoundError\<close>, and the
  lookup is the only call made to the repository: the status is not written.
\<close>

theorem updatePlatilloStatus_not_found:
  assumes "estado \<in> set Pedido"
    and "repo_findPlatilloById repo pedidoId itemId (store w) = (Inr [], s')"
  shows "updatePlatilloStatus numberToString Pedido repo pedidoId itemId estado w =
           (Inl (NotFoundError (''Platillo con ID '' @ toStr numberToString itemId
                   @ '' no encontrado en el pedido '' @ toStr numberToString pedidoId @ ''.'')),
            \<lparr>store = s', calls = calls w @ [FindPlatilloById pedidoId itemId]\<rparr>)"
  using assms by (simp add: updatePlatilloStatus_def invoke_def)

theorem updatePlatilloStatus_not_found_witness:
  "updatePlatilloStatus noBigNumbers [''pendiente'', ''listo''] (stubRepository [] (Num 1) None)
       (Num 31) (Num 2) ''listo'' world0 =
     (Inl (NotFoundError ''Platillo con ID 2 no encontrado en el pedido 31.''),
      \<lparr>store = 1, calls = [FindPlatilloById (Num 31) (Num 2)]\<rparr>)"
proof -
  have h1: "''listo'' \<in> set [''pendiente'', ''listo'']" by simp
  have h2: "repo_findPlatilloById (stubRepository [] (Num 1) None) (Num 31) (Num 2) (store world0)
              = (Inr [], 1)"
    by (simp add: stubRepository_def world0_def)
  have d: "decimal 2 = ''2''" "decimal 31 = ''31''"
    by (simp_all add: decimal.simps digit_def)
  from updatePlatilloStatus_not_found [OF h1 h2, of noBigNumbers] show ?thesis
    by (simp add: d world0_def)
qed

text \<open>
  C5. For a status of the vocabulary, when the lookup answers with at least one row and
  the write that follows reports \<open>0\<close> affected rows, \<^verbatim>\<open>updatePlatilloStatus\<close> throws an
  \<open>AppError\<close> with status code 500.
\<close>

theorem updatePlatilloStatus_zero_rows_500:
  assumes "estado \<in> set Pedido"
    and "repo_findPlatilloById repo pedidoId itemId (store w) = (Inr rows, s1)"
    and "rows \<noteq> []"
    and "repo_updatePlatilloStatus repo pedidoId itemId estado s1 = (Inr updateResult, s2)"
    and "affectedRows updateResult = Num 0"
  shows "updatePlatilloStatus numberToString Pedido repo pedidoId itemId estado w =
           (Inl (AppError ''No se pudo actualizar el estado del platillo.'' (Some (Num 500))),
            \<lparr>store = s2,
             calls = calls w @ [FindPlatilloById pedidoId itemId,
                                UpdatePlatilloStatus pedidoId itemId estado]\<rparr>)"
  using assms by (simp add: updatePlatilloStatus_def invoke_def)

theorem updatePlatilloStatus_zero_rows_500_witness:
  "updatePlatilloStatus noBigNumbers [''pendiente'', ''listo''] (stubRepository [5] (Num 0) None)
       (Num 31) (Num 2) ''listo'' world0 =
     (Inl (AppError ''No se pudo actualizar el estado del platillo.'' (Some (Num 500))),
      \<lparr>store = 2,
       calls = [FindPlatilloById (Num 31) (Num 2), UpdatePlatilloStatus (Num 31) (Num 2) ''listo'']\<rparr>)"
proof -
  have h1: "''listo'' \<in> set [''pendiente'', ''listo'']" by simp
  have h2: "repo_findPlatilloById (stubRepository [5] (Num 0) None) (Num 31) (Num 2) (store world0)
              = (Inr [5], 1)"
    by (simp add: stubRepository_def world0_def)
  have h3: "[5::nat] \<noteq> []" by simp
  have h4: "repo_updatePlatilloStatus (stubRepository [5] (Num 0) None) (Num 31) (Num 2) ''listo'' 1
              = (Inr \<lparr>affectedRows = Num 0\<rparr>, 2)"
    by (simp add: stubRepository_def)
  have h5: "affectedRows \<lparr>affectedRows = Num 0\<rparr> = Num 0" by simp
  from updatePlatilloStatus_zero_rows_500 [OF h1 h2 h3 h4 h5, of noBigNumbers] show ?thesis
    by (simp add: world0_def)
qed

section \<open>Listing the orders of a restaurant\<close>

text \<open>
  C6. When \<^verbatim>\<open>findAll\<close> answers with no rows (an empty array, or \<^verbatim>\<open>null\<close> or
  \<^verbatim>\<open>undefined\<close>), \<^verbatim>\<open>getAll\<close> throws \<open>NotFoundError\<close>, for every restaurant; when it
  answers with rows, \<^verbatim>\<open>getAll\<close> returns \<^verbatim>\<open>Order.fromDB\<close> of each row, in order, one
  order per row.
\<close>

theorem getAll_not_found_or_one_order_per_row:
  assumes "repo_findAll repo restaurantId (store w) = (Inr rows, s')"
  shows "(rows = None \<or> rows = Some [] \<longrightarrow>
            getAll fromDB repo restaurantId w =
              (Inl (NotFoundError ''No se encontraron pedidos.''),
               \<lparr>store = s', calls = calls w @ [FindAll restaurantId]\<rparr>))
         \<and> (\<forall>rs. rows = Some rs \<and> rs \<noteq> [] \<longrightarrow>
              getAll fromDB repo restaurantId w =
                (Inr (map fromDB rs), \<lparr>store = s', calls = calls w @ [FindAll restaurantId]\<rparr>)
              \<and> length (map fromDB rs) = length rs
              \<and> (\<forall>i < length rs. map fromDB rs ! i = fromDB (rs ! i)))"
  using assms by (auto simp: getAll_def invoke_def)

theorem getAll_not_found_or_one_order_per_row_witness:
  "getAll Suc (stubRepository [] (Num 1) None) (Num 7) world0 =
     (Inl (NotFoundError ''No se encontraron pedidos.''), \<lparr>store = 1, calls = [FindAll (Num 7)]\<rparr>)
   \<and> getAll Suc (stubRepository [4, 8] (Num 1) None) (Num 7) world0 =
     (Inr [5, 9], \<lparr>store = 1, calls = [FindAll (Num 7)]\<rparr>)"
proof -
  have e: "repo_findAll (stubRepository [] (Num 1) None) (Num 7) (store world0) = (Inr (Some []), 1)"
    by (simp add: stubRepository_def world0_def)
  have f: "repo_findAll (stubRepository [4, 8] (Num 1) None) (Num 7) (store world0)
             = (Inr (Some [4, 8]), 1)"
    by (simp add: stubRepository_def world0_def)
  from getAll_not_found_or_one_order_per_row [OF e, of Suc]
       getAll_not_found_or_one_order_per_row [OF f, of Suc]
  show ?thesis by (simp add: world0_def)
qed

section \<open>Cancelling\<close>

text \<open>
  C7, as the code has it. \<^verbatim>\<open>cancelOrder\<close> makes exactly one call,
  \<^verbatim>\<open>OrderRepository.cancelOrder(pedidoId, platilloId)\<close>, whatever the repository
  answers: with \<^verbatim>\<open>null\<close> when the item is left out (or \<^verbatim>\<open>undefined\<close>), the
  cancellation of the whole order, and with the item identifier as it was given
  otherwise. What the repository returns is returned. When the repository throws \<open>e\<close>,
  the operation throws an \<open>AppError\<close> whose message is
  \<open>Error al cancelar el platillo: \<close> followed by the message of \<open>e\<close> when the item
  identifier is truthy, and \<open>Error al cancelar el pedido: \<close> followed by it when the
  identifier is left out or falsy; its status code is the \<^verbatim>\<open>statusCode\<close> of \<open>e\<close> when
  that is truthy, and 500 in every other case.
\<close>

theorem cancelOrder_delegates_and_wraps_failure:
  "calls (snd (cancelOrder repo pedidoId itemId w)) =
     calls w @ [CancelOrder pedidoId (if itemId = Undefined then Null else itemId)]
   \<and> cancelOrder repo pedidoId Undefined w = cancelOrder repo pedidoId Null w
   \<and> (\<forall>r s'. repo_cancelOrder repo pedidoId (if itemId = Undefined then Null else itemId) (store w)
                = (Inr r, s') \<longrightarrow>
         cancelOrder repo pedidoId itemId w =
           (Inr r,
            \<lparr>store = s',
             calls = calls w @ [CancelOrder pedidoId (if itemId = Undefined then Null else itemId)]\<rparr>))
   \<and> (\<forall>e s'. repo_cancelOrder repo pedidoId (if itemId = Undefined then Null else itemId) (store w)
                = (Inl e, s') \<longrightarrow>
         cancelOrder repo pedidoId itemId w =
           (Inl (AppError
                  (''Error al cancelar el '' @ (if truthy itemId then ''platillo'' else ''pedido'')
                     @ '': '' @ message e)
                  (Some (if truthy (statusCode e) then statusCode e else Num 500))),
            \<lparr>store = s',
             calls = calls w @ [CancelOrder pedidoId (if itemId = Undefined then Null else itemId)]\<rparr>))"
  by (auto simp: cancelOrder_def invoke_def js_or_def Let_def split: prod.splits sum.splits)

theorem cancelOrder_delegates_and_wraps_failure_witness:
  "cancelOrder (stubRepository [] (Num 1) (Some \<lparr>message = ''sin conexion'', statusCode = Undefined\<rparr>))
       (Num 31) Null world0 =
     (Inl (AppError ''Error al cancelar el pedido: sin conexion'' (Some (Num 500))),
      \<lparr>store = 1, calls = [CancelOrder (Num 31) Null]\<rparr>)
   \<and> cancelOrder (stubRepository [] (Num 1) (Some \<lparr>message = ''no existe'', statusCode = Num 404\<rparr>))
       (Num 31) (Num 2) world0 =
     (Inl (AppError ''Error al cancelar el platillo: no existe'' (Some (Num 404))),
      \<lparr>store = 1, calls = [CancelOrder (Num 31) (Num 2)]\<rparr>)
   \<and> cancelOrder (stubRepository [] (Num 1) (Some \<lparr>message = ''no existe'', statusCode = Num 0\<rparr>))
       (Num 31) (Num 2) world0 =
     (Inl (AppError ''Error al cancelar el platillo: no existe'' (Some (Num 500))),
      \<lparr>store = 1, calls = [CancelOrder (Num 31) (Num 2)]\<rparr>)
   \<and> cancelOrder (stubRepository [] (Num 1) None) (Num 31) (Num 2) world0 =
     (Inr ''cancelado'', \<lparr>store = 1, calls = [CancelOrder (Num 31) (Num 2)]\<rparr>)"
proof -
  let ?e1 = "\<lparr>message = ''sin conexion'', statusCode = Undefined\<rparr>"
  let ?e2 = "\<lparr>message = ''no existe'', statusCode = Num 404\<rparr>"
  let ?e3 = "\<lparr>message = ''no existe'', statusCode = Num 0\<rparr>"
  have a: "repo_cancelOrder (stubRepository [] (Num 1) (Some ?e1)) (Num 31) Null (store world0)
             = (Inl ?e1, 1)"
    by (simp add: stubRepository_def world0_def)
  have b: "repo_cancelOrder (stubRepository [] (Num 1) (Some ?e2)) (Num 31) (Num 2) (store world0)
             = (Inl ?e2, 1)"
    by (simp add: stubRepository_def world0_def)
  have c: "repo_cancelOrder (stubRepository [] (Num 1) (Some ?e3)) (Num 31) (Num 2) (store world0)
             = (Inl ?e3, 1)"
    by (simp add: stubRepository_def world0_def)
  have d: "repo_cancelOrder (stubRepository [] (Num 1) None) (Num 31) (Num 2) (store world0)
             = (Inr ''cancelado'', 1)"
    by (simp add: stubRepository_def world0_def)
  from a cancelOrder_delegates_and_wraps_failure
         [of "stubRepository [] (Num 1) (Some ?e1)" "Num 31" Null world0]
  have 1: "cancelOrder (stubRepository [] (Num 1) (Some ?e1)) (Num 31) Null world0 =
          (Inl (AppError ''Error al cancelar el pedido: sin conexion'' (Some (Num 500))),
           \<lparr>store = 1, calls = [CancelOrder (Num 31) Null]\<rparr>)"
    by (simp add: world0_def)
  from b cancelOrder_delegates_and_wraps_failure
         [of "stubRepository [] (Num 1) (Some ?e2)" "Num 31" "Num 2" world0]
  have 2: "cancelOrder (stubRepository [] (Num 1) (Some ?e2)) (Num 31) (Num 2) world0 =
          (Inl (AppError ''Error al cancelar el platillo: no existe'' (Some (Num 404))),
           \<lparr>store = 1, calls = [CancelOrder (Num 31) (Num 2)]\<rparr>)"
    by (simp add: world0_def)
  from c cancelOrder_delegates_and_wraps_failure
         [of "stubRepository [] (Num 1) (Some ?e3)" "Num 31" "Num 2" world0]
  have 3: "cancelOrder (stubRepository [] (Num 1) (Some ?e3)) (Num 31) (Num 2) world0 =
          (Inl (AppError ''Error al cancelar el platillo: no existe'' (Some (Num 500))),
           \<lparr>store = 1, calls = [CancelOrder (Num 31) (Num 2)]\<rparr>)"
    by (simp add: world0_def)
  from d cancelOrder_delegates_and_wraps_failure
         [of "stubRepository [] (Num 1) None" "Num 31" "Num 2" world0]
  have 4: "cancelOrder (stubRepository [] (Num 1) None) (Num 31) (Num 2) world0 =
          (Inr ''cancelado'', \<lparr>store = 1, calls = [CancelOrder (Num 31) (Num 2)]\<rparr>)"
    by (simp add: world0_def)
  from 1 2 3 4 show ?thesis by simp
qed

text \<open>
  C7, as it is written, fails: \<^verbatim>\<open>cancelOrder(8, 0)\<close> names an item, and the call to
  the repository carries the item \<open>0\<close>, yet when the repository throws the message
  names the order.
\<close>

theorem cancelOrder_item_zero_names_the_order:
  "cancelOrder (stubRepository [] (Num 1) (Some \<lparr>message = ''fallo'', statusCode = Num 409\<rparr>))
       (Num 8) (Num 0) world0 =
     (Inl (AppError ''Error al cancelar el pedido: fallo'' (Some (Num 409))),
      \<lparr>store = 1, calls = [CancelOrder (Num 8) (Num 0)]\<rparr>)"
  by (simp add: cancelOrder_def invoke_def js_or_def stubRepository_def world0_def)

text \<open>
  C10, as the code has it. The label is chosen by the truthiness of the item identifier.
  For an identifier that is falsy and not \<^verbatim>\<open>undefined\<close>, such as \<open>0\<close> or the empty
  string, the one call to the repository carries that identifier unchanged, whether the
  repository then returns or throws; for \<^verbatim>\<open>undefined\<close> the call carries \<^verbatim>\<open>null\<close>, which
  the default of the parameter puts in its place. For every falsy identifier a failure
  of the repository is wrapped in an \<open>AppError\<close> whose message reads
  \<open>Error al cancelar el pedido\<close>, the wording of the whole-order case, and a result of
  the repository is returned as it is.
\<close>

theorem cancelOrder_falsy_item_labelled_pedido:
  assumes "\<not> truthy itemId"
  shows "(itemId \<noteq> Undefined \<longrightarrow>
            calls (snd (cancelOrder repo pedidoId itemId w)) = calls w @ [CancelOrder pedidoId itemId])
         \<and> (itemId = Undefined \<longrightarrow>
            calls (snd (cancelOrder repo pedidoId itemId w)) = calls w @ [CancelOrder pedidoId Null])
         \<and> (\<forall>e s'. repo_cancelOrder repo pedidoId (if itemId = Undefined then Null else itemId) (store w)
                      = (Inl e, s') \<longrightarrow>
               cancelOrder repo pedidoId itemId w =
                 (Inl (AppError (''Error al cancelar el pedido: '' @ message e)
                         (Some (if truthy (statusCode e) then statusCode e else Num 500))),
                  \<lparr>store = s',
                   calls = calls w
                     @ [CancelOrder pedidoId (if itemId = Undefined then Null else itemId)]\<rparr>))
         \<and> (\<forall>r s'. repo_cancelOrder repo pedidoId (if itemId = Undefined then Null else itemId) (store w)
                      = (Inr r, s') \<longrightarrow>
               cancelOrder repo pedidoId itemId w =
                 (Inr r,
                  \<lparr>store = s',
                   calls = calls w
                     @ [CancelOrder pedidoId (if itemId = Undefined then Null else itemId)]\<rparr>))
         \<and> \<not> truthy (Num 0) \<and> \<not> truthy (Str [])"
  using assms
  by (auto simp: cancelOrder_def invoke_def js_or_def Let_def split: prod.splits sum.splits)

theorem cancelOrder_falsy_item_labelled_pedido_witness:
  "cancelOrder (stubRepository [] (Num 1) (Some \<lparr>message = ''no existe'', statusCode = Num 404\<rparr>))
       (Num 31) (Num 0) world0 =
     (Inl (AppError ''Error al cancelar el pedido: no existe'' (Some (Num 404))),
      \<lparr>store = 1, calls = [CancelOrder (Num 31) (Num 0)]\<rparr>)
   \<and> cancelOrder (stubRepository [] (Num 1) (Some \<lparr>message = ''no existe'', statusCode = Num 404\<rparr>))
       (Num 31) (Str []) world0 =
     (Inl (AppError ''Error al cancelar el pedido: no existe'' (Some (Num 404))),
      \<lparr>store = 1, calls = [CancelOrder (Num 31) (Str [])]\<rparr>)
   \<and> cancelOrder (stubRepository [] (Num 1) None) (Num 31) (Num 0) world0 =
     (Inr ''cancelado'', \<lparr>store = 1, calls = [CancelOrder (Num 31) (Num 0)]\<rparr>)"
proof -
  let ?e = "\<lparr>message = ''no existe'', statusCode = Num 404\<rparr>"
  have z: "\<not> truthy (Num 0)" and y: "\<not> truthy (Str [])" by simp_all
  have a: "repo_cancelOrder (stubRepository [] (Num 1) (Some ?e)) (Num 31) i (store world0)
             = (Inl ?e, 1)" for i
    by (simp add: stubRepository_def world0_def)
  have b: "repo_cancelOrder (stubRepository [] (Num 1) None) (Num 31) i (store world0)
             = (Inr ''cancelado'', 1)" for i
    by (simp add: stubRepository_def world0_def)
  from a cancelOrder_falsy_item_labelled_pedido
         [OF z, of "stubRepository [] (Num 1) (Some ?e)" "Num 31" world0]
  have 1: "cancelOrder (stubRepository [] (Num 1) (Some ?e)) (Num 31) (Num 0) world0 =
     (Inl (AppError ''Error al cancelar el pedido: no existe'' (Some (Num 404))),
      \<lparr>store = 1, calls = [CancelOrder (Num 31) (Num 0)]\<rparr>)"
    by (simp add: world0_def)
  from a cancelOrder_falsy_item_labelled_pedido
         [OF y, of "stubRepository [] (Num 1) (Some ?e)" "Num 31" world0]
  have 2: "cancelOrder (stubRepository [] (Num 1) (Some ?e)) (Num 31) (Str []) world0 =
     (Inl (AppError ''Error al cancelar el pedido: no existe'' (Some (Num 404))),
      \<lparr>store = 1, calls = [CancelOrder (Num 31) (Str [])]\<rparr>)"
    by (simp add: world0_def)
  from b cancelOrder_falsy_item_labelled_pedido
         [OF z, of "stubRepository [] (Num 1) None" "Num 31" world0]
  have 3: "cancelOrder (stubRepository [] (Num 1) None) (Num 31) (Num 0) world0 =
     (Inr ''cancelado'', \<lparr>store = 1, calls = [CancelOrder (Num 31) (Num 0)]\<rparr>)"
    by (simp add: world0_def)
  from 1 2 3 show ?thesis by simp
qed

text \<open>
  C10, as it is written, fails for the falsy value \<^verbatim>\<open>undefined\<close>: it does not reach the
  repository unchanged, the call carries \<^verbatim>\<open>null\<close>.
\<close>

theorem cancelOrder_undefined_forwarded_as_null:
  "calls (snd (cancelOrder (stubRepository [] (Num 1) None) (Num 31) Undefined world0)) =
     [CancelOrder (Num 31) Null]
   \<and> calls (snd (cancelOrder (stubRepository [] (Num 1) None) (Num 31) Undefined world0)) \<noteq>
     [CancelOrder (Num 31) Undefined]"
  by (simp add: cancelOrder_def invoke_def stubRepository_def world0_def)

section \<open>The session cookie\<close>

text \<open>
  C8. Every cookie that \<^verbatim>\<open>createCookie\<close> sets is \<open>httpOnly\<close>; it is \<open>secure\<close> with
  \<open>sameSite\<close> \<open>None\<close> unless \<open>NODE_ENV\<close> is \<open>development\<close>, the unset variable
  included, and then it is not \<open>secure\<close> and \<open>sameSite\<close> is \<open>Lax\<close>; its \<open>maxAge\<close> is
  the configured \<open>jwtExpiration\<close>. \<^verbatim>\<open>createJWTCookie\<close> sets its cookie under the name
  \<open>token\<close>, with the signed token as value, and sets none when signing throws.
\<close>

theorem session_cookie_attributes:
  "createCookie config NODE_ENV res name value =
     res @ [\<lparr>cookie_name = name, cookie_value = value, httpOnly = True,
              secure = (NODE_ENV \<noteq> Some ''development''),
              sameSite = (if NODE_ENV \<noteq> Some ''development'' then ''None'' else ''Lax''),
              maxAge = jwtExpiration config\<rparr>]
   \<and> (\<forall>token. createJWT jwt config data = Inr token \<longrightarrow>
         createJWTCookie jwt config NODE_ENV res' data =
           (Inr (),
            res' @ [\<lparr>cookie_name = ''token'', cookie_value = token, httpOnly = True,
                     secure = (NODE_ENV \<noteq> Some ''development''),
                     sameSite = (if NODE_ENV \<noteq> Some ''development'' then ''None'' else ''Lax''),
                     maxAge = jwtExpiration config\<rparr>]))
   \<and> (\<forall>e. createJWT jwt config data = Inl e \<longrightarrow>
         createJWTCookie jwt config NODE_ENV res' data = (Inl e, res'))"
  by (auto simp: createCookie_def createJWTCookie_def split: option.splits)

theorem session_cookie_attributes_witness:
  "createJWTCookie stubJWT \<lparr>jwtSecret = 17, jwtExpiration = 3600\<rparr> None [] (Some [(''role'', Str ''customer'')]) =
     (Inr (), [\<lparr>cookie_name = ''token'', cookie_value = ([(''role'', Str ''customer'')], 17), httpOnly = True,
                secure = True, sameSite = ''None'', maxAge = 3600\<rparr>])
   \<and> createJWTCookie stubJWT \<lparr>jwtSecret = 17, jwtExpiration = 3600\<rparr> (Some ''production'') [] (Some [(''role'', Str ''customer'')]) =
     (Inr (), [\<lparr>cookie_name = ''token'', cookie_value = ([(''role'', Str ''customer'')], 17), httpOnly = True,
                secure = True, sameSite = ''None'', maxAge = 3600\<rparr>])
   \<and> createJWTCookie stubJWT \<lparr>jwtSecret = 17, jwtExpiration = 3600\<rparr> (Some ''development'') [] (Some [(''role'', Str ''customer'')]) =
     (Inr (), [\<lparr>cookie_name = ''token'', cookie_value = ([(''role'', Str ''customer'')], 17), httpOnly = True,
                secure = False, sameSite = ''Lax'', maxAge = 3600\<rparr>])"
proof -
  let ?c = "\<lparr>jwtSecret = 17 :: nat, jwtExpiration = 3600 :: nat\<rparr>"
  have t: "createJWT stubJWT ?c (Some [(''role'', Str ''customer'')])
             = Inr ([(''role'', Str ''customer'')], 17)"
    by (simp add: createJWT_def spread_def stubJWT_def)
  note g = session_cookie_attributes [of ?c _ "[]" "''token''" "([(''role'', Str ''customer'')], 17 :: nat)" stubJWT
        "Some [(''role'', Str ''customer'')]" "[]"]
  from t g [of None] g [of "Some ''production''"] g [of "Some ''development''"]
  show ?thesis by simp
qed

end
